theory Spec2Isabelle
  imports
    Complex_Main
    "HOL-Library.Sublist"
    "HOL-Library.Char_ord"
    "HOL-Library.List_Lexorder"
begin

section \<open>Faculty travel survey dashboard: the data pipeline of dashboard.py\<close>

text \<open>
  The script reads one CSV file into a pandas DataFrame and derives from it the headline
  percentages, the frequency tables, a row-normalised cross-tabulation and the reason
  tokens that its charts show. This theory embeds that pipeline (lines 29 to 105 of
  dashboard.py); loading the file and drawing the charts are left out.

  Conventions of the embedding:
  \<^item> a cell of a text column is either missing (pandas NaN) or a string;
  \<^item> a string is a list of 8-bit characters, and the case and whitespace functions of
    Python are given on ASCII (the letters A to Z and a to z, the whitespace characters
    of \<^verbatim>\<open>str.isspace\<close> below code 128); every other character is left alone;
  \<^item> a floating-point number is an exact rational, and the result of a numpy division
    by zero (inf or nan) is \<open>None\<close>;
  \<^item> a Python exception is the \<open>Inl\<close> of a result.
\<close>

subsection \<open>Python strings\<close>

definition is_upper :: "char \<Rightarrow> bool" where
  "is_upper c \<longleftrightarrow> CHR ''A'' \<le> c \<and> c \<le> CHR ''Z''"

definition is_lower :: "char \<Rightarrow> bool" where
  "is_lower c \<longleftrightarrow> CHR ''a'' \<le> c \<and> c \<le> CHR ''z''"

definition is_cased :: "char \<Rightarrow> bool" where
  "is_cased c \<longleftrightarrow> is_upper c \<or> is_lower c"

definition lower_char :: "char \<Rightarrow> char" where
  "lower_char c = (if is_upper c then char_of (of_char c + (32::nat)) else c)"

definition upper_char :: "char \<Rightarrow> char" where
  "upper_char c = (if is_lower c then char_of (of_char c - (32::nat)) else c)"

text \<open>\<^verbatim>\<open>str.lower()\<close>\<close>

definition str_lower :: "string \<Rightarrow> string" where
  "str_lower s = map lower_char s"

text \<open>
  \<^verbatim>\<open>str.title()\<close>: a cased character that follows an uncased one (or starts the
  string) is put in upper case, a cased character that follows a cased one in lower case.
\<close>

fun title_from :: "bool \<Rightarrow> string \<Rightarrow> string" where
  "title_from previous_is_cased [] = []"
| "title_from previous_is_cased (c # cs) =
     (if previous_is_cased then lower_char c else upper_char c) # title_from (is_cased c) cs"

definition str_title :: "string \<Rightarrow> string" where
  "str_title s = title_from False s"

text \<open>
  The whitespace of \<^verbatim>\<open>str.strip()\<close>: tab, line feed, vertical tab, form feed,
  carriage return, the four separators 0x1C to 0x1F, and the space.
\<close>

definition is_space :: "char \<Rightarrow> bool" where
  "is_space c \<longleftrightarrow>
     (let n = (of_char c :: nat) in (9 \<le> n \<and> n \<le> 13) \<or> (28 \<le> n \<and> n \<le> 32))"

definition str_strip :: "string \<Rightarrow> string" where
  "str_strip s = rev (dropWhile is_space (rev (dropWhile is_space s)))"

text \<open>\<^verbatim>\<open>s.replace(old, new)\<close> for one-character \<open>old\<close> and \<open>new\<close>.\<close>

definition str_replace :: "char \<Rightarrow> char \<Rightarrow> string \<Rightarrow> string" where
  "str_replace old new s = map (\<lambda>c. if c = old then new else c) s"

text \<open>
  \<^verbatim>\<open>s.split(sep)\<close> for a one-character separator: the pieces between the
  separators, empty pieces included, so there is always at least one piece.
\<close>

fun split_from :: "char \<Rightarrow> string \<Rightarrow> string \<Rightarrow> string list" where
  "split_from sep piece [] = [piece]"
| "split_from sep piece (c # cs) =
     (if c = sep then piece # split_from sep [] cs else split_from sep (piece @ [c]) cs)"

definition str_split :: "char \<Rightarrow> string \<Rightarrow> string list" where
  "str_split sep s = split_from sep [] s"

text \<open>
  \<^verbatim>\<open>re.search(pat, s)\<close> for a pattern without metacharacters, which is what
  \<^verbatim>\<open>Series.str.contains\<close> runs on each element: the pattern is looked for at every
  position, from the left.
\<close>

fun starts_with :: "string \<Rightarrow> string \<Rightarrow> bool" where
  "starts_with [] s = True"
| "starts_with (p # ps) [] = False"
| "starts_with (p # ps) (c # cs) = (p = c \<and> starts_with ps cs)"

fun str_contains :: "string \<Rightarrow> string \<Rightarrow> bool" where
  "str_contains pat [] = (pat = [])"
| "str_contains pat (c # cs) = (starts_with pat (c # cs) \<or> str_contains pat cs)"

subsection \<open>Series and data frames\<close>

datatype cell = NaN | Str string

type_synonym series = "cell list"

datatype py_error = KeyError string

record dataframe =
  nrows :: nat
  columns :: "(string \<times> series) list"

text \<open>
  A data frame has one cell per row in every column, and \<^verbatim>\<open>read_csv\<close> gives its
  columns different names.
\<close>

definition wf_df :: "dataframe \<Rightarrow> bool" where
  "wf_df df \<longleftrightarrow>
     distinct (map fst (columns df)) \<and> list_all (\<lambda>c. length (snd c) = nrows df) (columns df)"

text \<open>\<^verbatim>\<open>len(df)\<close>, \<^verbatim>\<open>df[name]\<close> and \<^verbatim>\<open>df.get(name)\<close>\<close>

definition len_df :: "dataframe \<Rightarrow> nat" where
  "len_df df = nrows df"

definition getitem :: "dataframe \<Rightarrow> string \<Rightarrow> py_error + series" where
  "getitem df name =
     (case map_of (columns df) name of None \<Rightarrow> Inl (KeyError name) | Some s \<Rightarrow> Inr s)"

definition df_get :: "dataframe \<Rightarrow> string \<Rightarrow> series option" where
  "df_get df name = map_of (columns df) name"

text \<open>\<^verbatim>\<open>Series.fillna(v)\<close>, \<^verbatim>\<open>Series.dropna()\<close>, \<^verbatim>\<open>Series.astype(str)\<close>\<close>

definition fillna :: "string \<Rightarrow> series \<Rightarrow> series" where
  "fillna v s = map (\<lambda>c. case c of NaN \<Rightarrow> Str v | Str x \<Rightarrow> Str x) s"

definition dropna :: "series \<Rightarrow> series" where
  "dropna s = filter (\<lambda>c. c \<noteq> NaN) s"

definition astype_str :: "series \<Rightarrow> string list" where
  "astype_str s = map (\<lambda>c. case c of NaN \<Rightarrow> ''nan'' | Str x \<Rightarrow> x) s"

text \<open>
  The element-wise string methods and tests, \<^verbatim>\<open>|\<close> on boolean series, and
  \<^verbatim>\<open>.sum()\<close> of a boolean series.
\<close>

definition series_str_lower :: "string list \<Rightarrow> string list" where
  "series_str_lower s = map str_lower s"

definition series_str_contains :: "string list \<Rightarrow> string \<Rightarrow> bool list" where
  "series_str_contains s pat = map (str_contains pat) s"

definition series_isin :: "string list \<Rightarrow> string list \<Rightarrow> bool list" where
  "series_isin s vals = map (\<lambda>x. x \<in> set vals) s"

definition series_or :: "bool list \<Rightarrow> bool list \<Rightarrow> bool list" where
  "series_or a b = map (\<lambda>(x, y). x \<or> y) (zip a b)"

definition mask_sum :: "bool list \<Rightarrow> nat" where
  "mask_sum m = length (filter (\<lambda>b. b) m)"

text \<open>
  True division of numpy: dividing by zero warns and gives inf or nan, no number.
\<close>

definition np_div :: "nat \<Rightarrow> nat \<Rightarrow> rat option" where
  "np_div a b = (if b = 0 then None else Some (of_nat a / of_nat b))"

subsection \<open>The headline figures (lines 30 to 39)\<close>

definition total_responses :: "dataframe \<Rightarrow> nat" where
  "total_responses df = len_df df"

definition travel_mode_lower :: "dataframe \<Rightarrow> py_error + string list" where
  "travel_mode_lower df =
     map_sum id (\<lambda>s. series_str_lower (astype_str (fillna [] s))) (getitem df ''Travel Mode'')"

definition private_mask :: "dataframe \<Rightarrow> py_error + bool list" where
  "private_mask df =
     map_sum id
       (\<lambda>l. series_or
              (series_or (series_str_contains l ''own car'') (series_str_contains l ''personal''))
              (series_str_contains l ''bike''))
       (travel_mode_lower df)"

text \<open>
  The expression \<^verbatim>\<open>(mask.sum() / total_responses * 100) if total_responses else 0\<close>,
  which the script writes once for each of its three percentages.
\<close>

definition metric_percentage :: "bool list \<Rightarrow> nat \<Rightarrow> rat option" where
  "metric_percentage m n =
     (if n \<noteq> 0 then map_option (\<lambda>q. q * 100) (np_div (mask_sum m) n) else Some 0)"

definition pct_private :: "dataframe \<Rightarrow> py_error + rat option" where
  "pct_private df = map_sum id (\<lambda>m. metric_percentage m (total_responses df)) (private_mask df)"

definition carpool_lower :: "dataframe \<Rightarrow> py_error + string list" where
  "carpool_lower df =
     map_sum id (\<lambda>s. series_str_lower (astype_str (fillna [] s)))
       (getitem df ''Carpool Willingness'')"

definition open_to_carpool_mask :: "dataframe \<Rightarrow> py_error + bool list" where
  "open_to_carpool_mask df =
     map_sum id (\<lambda>l. series_isin l [''yes'', ''maybe'']) (carpool_lower df)"

definition pct_open_carpool :: "dataframe \<Rightarrow> py_error + rat option" where
  "pct_open_carpool df =
     map_sum id (\<lambda>m. metric_percentage m (total_responses df)) (open_to_carpool_mask df)"

definition cab_issue_lower :: "dataframe \<Rightarrow> py_error + string list" where
  "cab_issue_lower df =
     map_sum id (\<lambda>s. series_str_lower (astype_str (fillna [] s)))
       (getitem df ''Cab Availability Issues'')"

definition cab_issue_mask :: "dataframe \<Rightarrow> py_error + bool list" where
  "cab_issue_mask df =
     map_sum id (\<lambda>l. series_isin l [''yes'', ''sometimes'']) (cab_issue_lower df)"

definition pct_cab_issues :: "dataframe \<Rightarrow> py_error + rat option" where
  "pct_cab_issues df =
     map_sum id (\<lambda>m. metric_percentage m (total_responses df)) (cab_issue_mask df)"

subsection \<open>Frequency tables (lines 48 and 70)\<close>

text \<open>
  \<^verbatim>\<open>Series.value_counts()\<close>: missing values are dropped, the others are counted
  in the order in which they are first met, and the table is put in descending order of
  the counts. The sort keeps equal counts in the order of first encounter.
\<close>

fun count_into :: "cell \<Rightarrow> (cell \<times> nat) list \<Rightarrow> (cell \<times> nat) list" where
  "count_into x [] = [(x, 1)]"
| "count_into x ((k, c) # t) = (if k = x then (k, c + 1) # t else (k, c) # count_into x t)"

definition value_counts :: "series \<Rightarrow> (cell \<times> nat) list" where
  "value_counts s = sort_key (\<lambda>e. - int (snd e)) (foldl (\<lambda>t x. count_into x t) [] (dropna s))"

text \<open>The count of a label in a frequency table, 0 for a label that is not in it.\<close>

definition count_of :: "(cell \<times> nat) list \<Rightarrow> cell \<Rightarrow> nat" where
  "count_of t k = (case map_of t k of None \<Rightarrow> 0 | Some c \<Rightarrow> c)"

definition mode_counts :: "dataframe \<Rightarrow> py_error + (cell \<times> nat) list" where
  "mode_counts df =
     map_sum id (\<lambda>s. value_counts (fillna ''(Missing)'' s)) (getitem df ''Travel Mode'')"

definition pool_counts :: "dataframe \<Rightarrow> py_error + (cell \<times> nat) list" where
  "pool_counts df =
     map_sum id (\<lambda>s. value_counts (fillna ''(Missing)'' s)) (getitem df ''Carpool Willingness'')"

subsection \<open>The cross-tabulation (lines 56 to 59)\<close>

text \<open>
  \<^verbatim>\<open>df[['Travel Mode', 'Cab Availability Issues']].fillna('(Missing)')\<close> raises
  KeyError when one of the two columns is not there.
\<close>

definition df_mode_issue :: "dataframe \<Rightarrow> py_error + series \<times> series" where
  "df_mode_issue df =
     (case getitem df ''Travel Mode'' of
        Inl e \<Rightarrow> Inl e
      | Inr a \<Rightarrow>
          (case getitem df ''Cab Availability Issues'' of
             Inl e \<Rightarrow> Inl e
           | Inr b \<Rightarrow> Inr (fillna ''(Missing)'' a, fillna ''(Missing)'' b)))"

text \<open>
  \<^verbatim>\<open>pd.crosstab(a, b)\<close>: the rows in which both values are present are the
  observations; the row labels are the values of \<open>a\<close> among them and the column labels
  the values of \<open>b\<close>, both sorted; an entry counts the observations with that pair.
\<close>

fun observations :: "series \<Rightarrow> series \<Rightarrow> (string \<times> string) list" where
  "observations (Str x # a) (Str y # b) = (x, y) # observations a b"
| "observations (u # a) (v # b) = observations a b"
| "observations a b = []"

type_synonym 'v table = "(string \<times> (string \<times> 'v) list) list"

definition crosstab :: "series \<Rightarrow> series \<Rightarrow> nat table" where
  "crosstab a b =
     (let obs = observations a b;
          row_labels = sort (remdups (map fst obs));
          col_labels = sort (remdups (map snd obs))
      in map (\<lambda>r. (r, map (\<lambda>c. (c, count_list obs (r, c))) col_labels)) row_labels)"

definition ct :: "dataframe \<Rightarrow> py_error + nat table" where
  "ct df = map_sum id (\<lambda>(a, b). crosstab a b) (df_mode_issue df)"

text \<open>
  \<^verbatim>\<open>t.sum(axis=1)\<close>, \<^verbatim>\<open>t.div(sums, axis=0)\<close> and \<^verbatim>\<open>t * 100\<close>: the sum of each
  row, each row divided by its own sum, and every entry times 100.
\<close>

definition sum_axis1 :: "nat table \<Rightarrow> nat list" where
  "sum_axis1 t = map (\<lambda>row. sum_list (map snd (snd row))) t"

definition div_axis0 :: "nat table \<Rightarrow> nat list \<Rightarrow> rat option table" where
  "div_axis0 t row_sums =
     map (\<lambda>(row, s). (fst row, map (\<lambda>e. (fst e, np_div (snd e) s)) (snd row))) (zip t row_sums)"

definition mul_scalar :: "rat option table \<Rightarrow> rat \<Rightarrow> rat option table" where
  "mul_scalar t k = map (\<lambda>row. (fst row, map (\<lambda>e. (fst e, map_option (\<lambda>q. q * k) (snd e))) (snd row))) t"

definition ct_pct :: "dataframe \<Rightarrow> py_error + rat option table" where
  "ct_pct df = map_sum id (\<lambda>t. mul_scalar (div_axis0 t (sum_axis1 t)) 100) (ct df)"

subsection \<open>The reasons (lines 79 to 105)\<close>

text \<open>
  One turn of the loop of \<^verbatim>\<open>split_reasons\<close>: the two replacements, then the list
  \<^verbatim>\<open>[p.strip() for p in item.split(',') if p.strip()]\<close>.
\<close>

definition parts :: "string \<Rightarrow> string list" where
  "parts item0 =
     (let item = str_replace CHR '';'' CHR '','' (str_replace CHR ''/'' CHR '','' item0)
      in map str_strip (filter (\<lambda>p. str_strip p \<noteq> []) (str_split CHR '','' item)))"

definition split_reasons :: "series \<Rightarrow> string list" where
  "split_reasons texts =
     foldl (\<lambda>all_reasons item. all_reasons @ parts item) [] (astype_str (dropna texts))"

definition reasons_series :: "dataframe \<Rightarrow> series option" where
  "reasons_series df = df_get df ''Reason for not using Ola/Uber/Rapido frequently''"

definition reasons_list :: "dataframe \<Rightarrow> string list" where
  "reasons_list df = (case reasons_series df of None \<Rightarrow> [] | Some s \<Rightarrow> split_reasons s)"

text \<open>
  \<^verbatim>\<open>[r.title() for r in reasons]\<close>, the list that line 89 and line 104 count, and
  the count itself, whose rows are the pairs of a reason and its count.
\<close>

definition titles :: "string list \<Rightarrow> string list" where
  "titles reasons = map str_title reasons"

definition reasons_df :: "dataframe \<Rightarrow> (cell \<times> nat) list" where
  "reasons_df df = value_counts (map Str (titles (reasons_list df)))"

definition reasons_carpool_series :: "dataframe \<Rightarrow> series option" where
  "reasons_carpool_series df = df_get df ''Reason for not preferring carpooling''"

definition reasons_carpool_list :: "dataframe \<Rightarrow> string list" where
  "reasons_carpool_list df =
     (case reasons_carpool_series df of None \<Rightarrow> [] | Some s \<Rightarrow> split_reasons s)"

definition reasons_carpool_df :: "dataframe \<Rightarrow> (cell \<times> nat) list" where
  "reasons_carpool_df df = value_counts (map Str (titles (reasons_carpool_list df)))"

subsection \<open>Words for the tokens\<close>









subsection \<open>Tables of the examples\<close>

definition travel_mode_example :: dataframe where
  "travel_mode_example =
     \<lparr>nrows = 3,
      columns = [(''Travel Mode'', [Str ''Own Car'', Str ''Ola/Uber'', Str ''Bike''])]\<rparr>"

definition carpool_example :: dataframe where
  "carpool_example =
     \<lparr>nrows = 4,
      columns = [(''Carpool Willingness'', [Str ''Yes'', Str ''No'', Str ''Maybe'', Str ''yes''])]\<rparr>"

definition padded_example :: dataframe where
  "padded_example = \<lparr>nrows = 1, columns = [(''Carpool Willingness'', [Str '' Yes ''])]\<rparr>"

definition survey_example :: dataframe where
  "survey_example =
     \<lparr>nrows = 4,
      columns =
        [(''Travel Mode'', [Str ''Own Car'', NaN, Str ''Ola/Uber'', Str ''Own Car'']),
         (''Carpool Willingness'', [Str ''Yes'', Str ''No'', NaN, Str ''Maybe'']),
         (''Cab Availability Issues'', [Str ''No'', Str ''Sometimes'', Str ''Yes'', NaN])]\<rparr>"

definition empty_example :: dataframe where
  "empty_example =
     \<lparr>nrows = 0,
      columns =
        [(''Travel Mode'', []), (''Carpool Willingness'', []), (''Cab Availability Issues'', [])]\<rparr>"

definition case_example :: dataframe where
  "case_example =
     \<lparr>nrows = 4,
      columns = [(''Carpool Willingness'', [Str ''YES'', Str ''mAyBe'', Str '' Yes '', NaN])]\<rparr>"

section \<open>Properties\<close>

subsection \<open>Searching a string\<close>

lemma starts_with_prefix: "starts_with p s \<longleftrightarrow> prefix p s"
  by (induction p s rule: starts_with.induct) auto

lemma str_contains_sublist: "str_contains pat s \<longleftrightarrow> sublist pat s"
  by (induction s) (auto simp: starts_with_prefix sublist_Cons_right)

lemma str_contains_iff: "str_contains pat s \<longleftrightarrow> (\<exists>pre suf. s = pre @ pat @ suf)"
  by (simp add: str_contains_sublist sublist_def)

lemma bex_three: "(\<exists>x \<in> {a, b, c}. P x) \<longleftrightarrow> P a \<or> P b \<or> P c"
  by blast

subsection \<open>The private-vehicle mask\<close>

lemma travel_mode_lower_Inr:
  "getitem df ''Travel Mode'' = Inr tm \<Longrightarrow>
   travel_mode_lower df = Inr (map (\<lambda>c. str_lower (case c of NaN \<Rightarrow> [] | Str x \<Rightarrow> x)) tm)"
  by (simp add: travel_mode_lower_def series_str_lower_def astype_str_def fillna_def
      cell.case_distrib [of "case_cell _ _"] comp_def cong: cell.case_cong)

lemma series_or_map: "series_or (map f xs) (map g xs) = map (\<lambda>x. f x \<or> g x) xs"
  by (induction xs) (simp_all add: series_or_def)

lemma private_mask_Inr:
  "getitem df ''Travel Mode'' = Inr tm \<Longrightarrow>
   private_mask df =
     Inr (map (\<lambda>c. let v = str_lower (case c of NaN \<Rightarrow> [] | Str x \<Rightarrow> x)
                   in str_contains ''own car'' v \<or> str_contains ''personal'' v
                      \<or> str_contains ''bike'' v) tm)"
  unfolding private_mask_def series_str_contains_def
  by (simp only: travel_mode_lower_Inr map_sum.simps id_apply series_or_map map_map comp_def
      Let_def disj_assoc)

text \<open>
  C1. When the table has a travel-mode column, the private-vehicle mask has one entry per
  row, and the entry of a row is true exactly when the lower-cased travel-mode value of
  the row, a missing value taken as the empty string, contains one of the substrings
  "own car", "personal" and "bike". For the column "Own Car", "Ola/Uber", "Bike" the mask
  is true, false, true and the percentage of private vehicles is 200/3.
\<close>

theorem private_mask_rule:
  "(\<forall>df tm. getitem df ''Travel Mode'' = Inr tm \<longrightarrow>
      (\<exists>m. private_mask df = Inr m \<and> length m = length tm \<and>
         (\<forall>i<length tm. m ! i \<longleftrightarrow>
            (\<exists>kw \<in> {''own car'', ''personal'', ''bike''}. \<exists>pre suf.
               str_lower (case tm ! i of NaN \<Rightarrow> [] | Str x \<Rightarrow> x) = pre @ kw @ suf)))) \<and>
   private_mask travel_mode_example = Inr [True, False, True] \<and>
   pct_private travel_mode_example = Inr (Some (200 / 3))"
proof (intro conjI allI impI)
  fix df tm
  assume g: "getitem df ''Travel Mode'' = Inr tm"
  show "\<exists>m. private_mask df = Inr m \<and> length m = length tm \<and>
         (\<forall>i<length tm. m ! i \<longleftrightarrow>
            (\<exists>kw \<in> {''own car'', ''personal'', ''bike''}. \<exists>pre suf.
               str_lower (case tm ! i of NaN \<Rightarrow> [] | Str x \<Rightarrow> x) = pre @ kw @ suf))"
  proof (intro exI conjI)
    show "private_mask df =
            Inr (map (\<lambda>c. \<exists>kw \<in> {''own car'', ''personal'', ''bike''}. \<exists>pre suf.
               str_lower (case c of NaN \<Rightarrow> [] | Str x \<Rightarrow> x) = pre @ kw @ suf) tm)"
      (is "_ = Inr (map ?F tm)")
      by (simp only: private_mask_Inr [OF g] Let_def str_contains_iff bex_three)
    show "length (map ?F tm) = length tm"
      by (rule length_map)
    show "\<forall>i<length tm. map ?F tm ! i \<longleftrightarrow>
            (\<exists>kw \<in> {''own car'', ''personal'', ''bike''}. \<exists>pre suf.
               str_lower (case tm ! i of NaN \<Rightarrow> [] | Str x \<Rightarrow> x) = pre @ kw @ suf)"
      by (intro allI impI) (simp only: nth_map)
  qed
next
  show "private_mask travel_mode_example = Inr [True, False, True]"
    by code_simp
next
  show "pct_private travel_mode_example = Inr (Some (200 / 3))"
    by code_simp
qed

theorem private_mask_rule_witness:
  "getitem travel_mode_example ''Travel Mode''
     = Inr [Str ''Own Car'', Str ''Ola/Uber'', Str ''Bike''] \<and>
   (\<exists>m. private_mask travel_mode_example = Inr m \<and> length m = 3 \<and> m ! 0 \<and>
     (\<exists>pre suf. str_lower ''Own Car'' = pre @ ''own car'' @ suf))"
proof -
  let ?tm = "[Str ''Own Car'', Str ''Ola/Uber'', Str ''Bike'']"
  have g: "getitem travel_mode_example ''Travel Mode'' = Inr ?tm"
    by code_simp
  have l: "str_lower ''Own Car'' = [] @ ''own car'' @ []"
    by code_simp
  from private_mask_rule [THEN conjunct1, rule_format, OF g]
  obtain m where m: "private_mask travel_mode_example = Inr m" "length m = length ?tm"
    and r: "\<forall>i<length ?tm. m ! i \<longleftrightarrow>
            (\<exists>kw \<in> {''own car'', ''personal'', ''bike''}. \<exists>pre suf.
               str_lower (case ?tm ! i of NaN \<Rightarrow> [] | Str x \<Rightarrow> x) = pre @ kw @ suf)"
    by blast
  have n: "(0::nat) < length ?tm" "?tm ! 0 = Str ''Own Car''" "length ?tm = 3"
    by simp_all
  have e: "\<exists>pre suf. str_lower ''Own Car'' = pre @ ''own car'' @ suf"
    using l by (intro exI)
  have "m ! 0"
    unfolding r [rule_format, OF n(1)] n(2) cell.case bex_three using e by (rule disjI1)
  with g m n(3) e show ?thesis by metis
qed

subsection \<open>An optional column that is not there\<close>

text \<open>
  C7. When the table has no column of reasons against ride hailing, the list of reasons
  and the table of their counts are both empty, and so are the two for the reasons against
  carpooling when that column is not there: \<^verbatim>\<open>df.get\<close> gives None and nothing is
  raised.
\<close>

theorem absent_reason_column:
  "(df_get df ''Reason for not using Ola/Uber/Rapido frequently'' = None \<longrightarrow>
      reasons_list df = [] \<and> titles (reasons_list df) = [] \<and> reasons_df df = []) \<and>
   (df_get df ''Reason for not preferring carpooling'' = None \<longrightarrow>
      reasons_carpool_list df = [] \<and> titles (reasons_carpool_list df) = [] \<and>
      reasons_carpool_df df = [])"
  by (simp add: reasons_list_def reasons_series_def reasons_df_def reasons_carpool_list_def
      reasons_carpool_series_def reasons_carpool_df_def titles_def value_counts_def dropna_def)

theorem absent_reason_column_witness:
  "df_get travel_mode_example ''Reason for not using Ola/Uber/Rapido frequently'' = None \<and>
   df_get travel_mode_example ''Reason for not preferring carpooling'' = None \<and>
   reasons_list travel_mode_example = [] \<and> reasons_df travel_mode_example = [] \<and>
   reasons_carpool_list travel_mode_example = [] \<and> reasons_carpool_df travel_mode_example = []"
proof -
  have a: "df_get travel_mode_example ''Reason for not using Ola/Uber/Rapido frequently'' = None"
    by code_simp
  have b: "df_get travel_mode_example ''Reason for not preferring carpooling'' = None"
    by code_simp
  from a b absent_reason_column [of travel_mode_example] show ?thesis
    by simp
qed

subsection \<open>The two membership masks\<close>

lemma in_list2: "x \<in> set [a, b] \<longleftrightarrow> x = a \<or> x = b"
  by auto

lemma lowered_series:
  "series_str_lower (astype_str (fillna [] s))
     = map (\<lambda>c. str_lower (case c of NaN \<Rightarrow> [] | Str x \<Rightarrow> x)) s"
  by (simp add: series_str_lower_def astype_str_def fillna_def
      cell.case_distrib [of "case_cell _ _"] comp_def cong: cell.case_cong)

lemma open_to_carpool_mask_Inr:
  "getitem df ''Carpool Willingness'' = Inr cw \<Longrightarrow>
   open_to_carpool_mask df =
     Inr (map (\<lambda>c. str_lower (case c of NaN \<Rightarrow> [] | Str x \<Rightarrow> x) = ''yes'' \<or>
                    str_lower (case c of NaN \<Rightarrow> [] | Str x \<Rightarrow> x) = ''maybe'') cw)"
  unfolding open_to_carpool_mask_def carpool_lower_def series_isin_def
  by (simp only: lowered_series map_sum.simps id_apply map_map comp_def in_list2)

lemma cab_issue_mask_Inr:
  "getitem df ''Cab Availability Issues'' = Inr ca \<Longrightarrow>
   cab_issue_mask df =
     Inr (map (\<lambda>c. str_lower (case c of NaN \<Rightarrow> [] | Str x \<Rightarrow> x) = ''yes'' \<or>
                    str_lower (case c of NaN \<Rightarrow> [] | Str x \<Rightarrow> x) = ''sometimes'') ca)"
  unfolding cab_issue_mask_def cab_issue_lower_def series_isin_def
  by (simp only: lowered_series map_sum.simps id_apply map_map comp_def in_list2)

text \<open>
  C3, as claimed: the mask would be true wherever the lower-cased and trimmed value is
  "yes" or "maybe". The script lower-cases the value and does not trim it: the cell
  " Yes ", whose lower-cased and trimmed value is "yes", is classified false.
\<close>

theorem open_to_carpool_trimmed_counterexample:
  "getitem padded_example ''Carpool Willingness'' = Inr [Str '' Yes ''] \<and>
   str_strip (str_lower '' Yes '') = ''yes'' \<and>
   open_to_carpool_mask padded_example = Inr [False]"
  by code_simp

text \<open>
  C3, amended. When the table has a carpool-willingness column, the open-to-carpool mask
  has one entry per row, and the entry of a row is true exactly when the lower-cased
  value of the row, a missing value taken as the empty string and nothing trimmed, is
  "yes" or "maybe". So a cell that differs from these only in the case of its letters is
  classified true ("YES", "mAyBe"), and one with surrounding whitespace false.
\<close>

theorem open_to_carpool_rule:
  "(\<forall>df cw. getitem df ''Carpool Willingness'' = Inr cw \<longrightarrow>
      (\<exists>m. open_to_carpool_mask df = Inr m \<and> length m = length cw \<and>
         (\<forall>i<length cw. m ! i \<longleftrightarrow>
            str_lower (case cw ! i of NaN \<Rightarrow> [] | Str x \<Rightarrow> x) = ''yes'' \<or>
            str_lower (case cw ! i of NaN \<Rightarrow> [] | Str x \<Rightarrow> x) = ''maybe''))) \<and>
   open_to_carpool_mask case_example = Inr [True, True, False, False]"
proof (intro conjI allI impI)
  fix df cw
  assume g: "getitem df ''Carpool Willingness'' = Inr cw"
  show "\<exists>m. open_to_carpool_mask df = Inr m \<and> length m = length cw \<and>
         (\<forall>i<length cw. m ! i \<longleftrightarrow>
            str_lower (case cw ! i of NaN \<Rightarrow> [] | Str x \<Rightarrow> x) = ''yes'' \<or>
            str_lower (case cw ! i of NaN \<Rightarrow> [] | Str x \<Rightarrow> x) = ''maybe'')"
  proof (intro exI conjI)
    show "open_to_carpool_mask df =
            Inr (map (\<lambda>c. str_lower (case c of NaN \<Rightarrow> [] | Str x \<Rightarrow> x) = ''yes'' \<or>
                    str_lower (case c of NaN \<Rightarrow> [] | Str x \<Rightarrow> x) = ''maybe'') cw)"
      (is "_ = Inr (map ?F cw)")
      by (rule open_to_carpool_mask_Inr [OF g])
    show "length (map ?F cw) = length cw"
      by (rule length_map)
    show "\<forall>i<length cw. map ?F cw ! i \<longleftrightarrow>
            str_lower (case cw ! i of NaN \<Rightarrow> [] | Str x \<Rightarrow> x) = ''yes'' \<or>
            str_lower (case cw ! i of NaN \<Rightarrow> [] | Str x \<Rightarrow> x) = ''maybe''"
      by (intro allI impI) (simp only: nth_map)
  qed
next
  show "open_to_carpool_mask case_example = Inr [True, True, False, False]"
    by code_simp
qed

theorem open_to_carpool_rule_witness:
  "getitem case_example ''Carpool Willingness''
     = Inr [Str ''YES'', Str ''mAyBe'', Str '' Yes '', NaN] \<and>
   str_lower ''mAyBe'' = ''maybe'' \<and>
   (\<exists>m. open_to_carpool_mask case_example = Inr m \<and> length m = 4 \<and> m ! 1)"
proof -
  let ?cw = "[Str ''YES'', Str ''mAyBe'', Str '' Yes '', NaN]"
  have g: "getitem case_example ''Carpool Willingness'' = Inr ?cw"
    by code_simp
  have l: "str_lower ''mAyBe'' = ''maybe''"
    by code_simp
  from open_to_carpool_rule [THEN conjunct1, rule_format, OF g]
  obtain m where m: "open_to_carpool_mask case_example = Inr m" "length m = length ?cw"
    and r: "\<forall>i<length ?cw. m ! i \<longleftrightarrow>
            str_lower (case ?cw ! i of NaN \<Rightarrow> [] | Str x \<Rightarrow> x) = ''yes'' \<or>
            str_lower (case ?cw ! i of NaN \<Rightarrow> [] | Str x \<Rightarrow> x) = ''maybe''"
    by blast
  have n: "(1::nat) < length ?cw" "?cw ! 1 = Str ''mAyBe''" "length ?cw = 4"
    by simp_all
  have "m ! 1"
    unfolding r [rule_format, OF n(1)] n(2) cell.case using l by (rule disjI2)
  with g m n(3) l show ?thesis by metis
qed

subsection \<open>The percentages\<close>

lemma getitem_length: "wf_df df \<Longrightarrow> getitem df name = Inr s \<Longrightarrow> length s = nrows df"
proof -
  assume w: "wf_df df" and g: "getitem df name = Inr s"
  from g have "map_of (columns df) name = Some s"
    by (simp add: getitem_def split: option.splits)
  then have "(name, s) \<in> set (columns df)"
    by (rule map_of_SomeD)
  with w show ?thesis
    by (auto simp: wf_df_def list_all_iff)
qed

lemma mask_sum_le: "mask_sum m \<le> length m"
  by (simp add: mask_sum_def)

lemma metric_percentage_value:
  "mask_sum m \<le> n \<Longrightarrow>
   \<exists>p. metric_percentage m n = Some p \<and> 0 \<le> p \<and> p \<le> 100 \<and> (n = 0 \<longrightarrow> p = 0) \<and>
       p * of_nat n = 100 * of_nat (mask_sum m)"
proof (cases "n = 0")
  case True
  assume "mask_sum m \<le> n"
  with True show ?thesis by (simp add: metric_percentage_def)
next
  case False
  assume le: "mask_sum m \<le> n"
  define q :: rat where "q = of_nat (mask_sum m) / of_nat n"
  from False have pos: "(0::rat) < of_nat n" by simp
  have v: "metric_percentage m n = Some (q * 100)"
    using False by (simp add: metric_percentage_def np_div_def q_def)
  have q0: "0 \<le> q" by (simp add: q_def)
  from le have "(of_nat (mask_sum m) :: rat) \<le> of_nat n"
    by (simp only: of_nat_le_iff)
  with pos have q1: "q \<le> 1"
    by (simp add: q_def divide_le_eq)
  from q0 have lo: "0 \<le> q * 100" by simp
  from q1 have hi: "q * 100 \<le> 100" by simp
  have qn: "q * of_nat n = of_nat (mask_sum m)"
    using False by (simp add: q_def)
  have "q * 100 * of_nat n = 100 * (q * of_nat n)"
    by (simp only: ac_simps)
  then have eq: "q * 100 * of_nat n = 100 * of_nat (mask_sum m)"
    by (simp only: qn)
  from v lo hi eq False show ?thesis by blast
qed

lemma private_mask_length:
  "getitem df ''Travel Mode'' = Inr tm \<Longrightarrow> \<exists>m. private_mask df = Inr m \<and> length m = length tm"
  by (intro exI conjI, erule private_mask_Inr, rule length_map)

lemma open_to_carpool_mask_length:
  "getitem df ''Carpool Willingness'' = Inr cw \<Longrightarrow>
   \<exists>m. open_to_carpool_mask df = Inr m \<and> length m = length cw"
  by (intro exI conjI, erule open_to_carpool_mask_Inr, rule length_map)

lemma cab_issue_mask_length:
  "getitem df ''Cab Availability Issues'' = Inr ca \<Longrightarrow>
   \<exists>m. cab_issue_mask df = Inr m \<and> length m = length ca"
  by (intro exI conjI, erule cab_issue_mask_Inr, rule length_map)

lemma percentage_of_mask:
  assumes "wf_df df" "getitem df name = Inr col" "length m = length col"
  shows "\<exists>p. metric_percentage m (total_responses df) = Some p \<and> 0 \<le> p \<and> p \<le> 100 \<and>
     (total_responses df = 0 \<longrightarrow> p = 0) \<and>
     p * of_nat (total_responses df) = 100 * of_nat (mask_sum m)"
proof -
  have "mask_sum m \<le> length m" by (rule mask_sum_le)
  also have "\<dots> = total_responses df"
    using getitem_length [OF assms(1,2)] assms(3) by (simp add: total_responses_def len_df_def)
  finally show ?thesis by (rule metric_percentage_value)
qed

lemma pct_private_range:
  assumes "wf_df df" "getitem df ''Travel Mode'' = Inr tm"
  shows "\<exists>p. pct_private df = Inr (Some p) \<and> 0 \<le> p \<and> p \<le> 100 \<and>
     (total_responses df = 0 \<longrightarrow> p = 0)"
proof -
  from private_mask_length [OF assms(2)]
  obtain m where m: "private_mask df = Inr m" "length m = length tm" by (elim exE conjE)
  from percentage_of_mask [OF assms m(2)]
  obtain p where p: "metric_percentage m (total_responses df) = Some p" "0 \<le> p" "p \<le> 100"
    "total_responses df = 0 \<longrightarrow> p = 0" by (elim exE conjE)
  have "pct_private df = Inr (Some p)"
    by (simp only: pct_private_def m(1) map_sum.simps id_apply p(1))
  with p(2-4) show ?thesis by (intro exI conjI)
qed

lemma pct_open_carpool_range:
  assumes "wf_df df" "getitem df ''Carpool Willingness'' = Inr cw"
  shows "\<exists>p. pct_open_carpool df = Inr (Some p) \<and> 0 \<le> p \<and> p \<le> 100 \<and>
     (total_responses df = 0 \<longrightarrow> p = 0)"
proof -
  from open_to_carpool_mask_length [OF assms(2)]
  obtain m where m: "open_to_carpool_mask df = Inr m" "length m = length cw" by (elim exE conjE)
  from percentage_of_mask [OF assms m(2)]
  obtain p where p: "metric_percentage m (total_responses df) = Some p" "0 \<le> p" "p \<le> 100"
    "total_responses df = 0 \<longrightarrow> p = 0" by (elim exE conjE)
  have "pct_open_carpool df = Inr (Some p)"
    by (simp only: pct_open_carpool_def m(1) map_sum.simps id_apply p(1))
  with p(2-4) show ?thesis by (intro exI conjI)
qed

lemma pct_cab_issues_range:
  assumes "wf_df df" "getitem df ''Cab Availability Issues'' = Inr ca"
  shows "\<exists>p. pct_cab_issues df = Inr (Some p) \<and> 0 \<le> p \<and> p \<le> 100 \<and>
     (total_responses df = 0 \<longrightarrow> p = 0)"
proof -
  from cab_issue_mask_length [OF assms(2)]
  obtain m where m: "cab_issue_mask df = Inr m" "length m = length ca" by (elim exE conjE)
  from percentage_of_mask [OF assms m(2)]
  obtain p where p: "metric_percentage m (total_responses df) = Some p" "0 \<le> p" "p \<le> 100"
    "total_responses df = 0 \<longrightarrow> p = 0" by (elim exE conjE)
  have "pct_cab_issues df = Inr (Some p)"
    by (simp only: pct_cab_issues_def m(1) map_sum.simps id_apply p(1))
  with p(2-4) show ?thesis by (intro exI conjI)
qed

text \<open>
  C4. A percentage computed from a mask and the number of its rows is a number between 0
  and 100, and it is 0 when the number of rows is 0, whatever the mask. For a table with
  the three columns the three headline percentages are such numbers; when the table has
  no row, the number of responses is 0 and the three percentages are 0, and no division
  by zero takes place.
\<close>

theorem percentages_in_range:
  "(\<exists>p. metric_percentage m (length m) = Some p \<and> 0 \<le> p \<and> p \<le> 100) \<and>
   metric_percentage m 0 = Some 0 \<and>
   (wf_df df \<and> getitem df ''Travel Mode'' = Inr tm \<and>
    getitem df ''Carpool Willingness'' = Inr cw \<and>
    getitem df ''Cab Availability Issues'' = Inr ca \<longrightarrow>
      total_responses df = length tm \<and>
      (\<exists>a b c. pct_private df = Inr (Some a) \<and> pct_open_carpool df = Inr (Some b) \<and>
         pct_cab_issues df = Inr (Some c) \<and>
         0 \<le> a \<and> a \<le> 100 \<and> 0 \<le> b \<and> b \<le> 100 \<and> 0 \<le> c \<and> c \<le> 100 \<and>
         (total_responses df = 0 \<longrightarrow> a = 0 \<and> b = 0 \<and> c = 0)))"
proof (intro conjI impI)
  from metric_percentage_value [OF mask_sum_le, of m]
  show "\<exists>p. metric_percentage m (length m) = Some p \<and> 0 \<le> p \<and> p \<le> 100"
    by blast
next
  show "metric_percentage m 0 = Some 0"
    by (simp add: metric_percentage_def)
next
  assume h: "wf_df df \<and> getitem df ''Travel Mode'' = Inr tm \<and>
    getitem df ''Carpool Willingness'' = Inr cw \<and>
    getitem df ''Cab Availability Issues'' = Inr ca"
  from h have w: "wf_df df" by (elim conjE)
  from h have g1: "getitem df ''Travel Mode'' = Inr tm" by (elim conjE)
  from getitem_length [OF w g1] show "total_responses df = length tm"
    by (simp only: total_responses_def len_df_def)
next
  assume h: "wf_df df \<and> getitem df ''Travel Mode'' = Inr tm \<and>
    getitem df ''Carpool Willingness'' = Inr cw \<and>
    getitem df ''Cab Availability Issues'' = Inr ca"
  from h have w: "wf_df df" by (elim conjE)
  from h have g1: "getitem df ''Travel Mode'' = Inr tm" by (elim conjE)
  from h have g2: "getitem df ''Carpool Willingness'' = Inr cw" by (elim conjE)
  from h have g3: "getitem df ''Cab Availability Issues'' = Inr ca" by (elim conjE)
  from pct_private_range [OF w g1]
  obtain a where a: "pct_private df = Inr (Some a)" "0 \<le> a" "a \<le> 100"
    "total_responses df = 0 \<longrightarrow> a = 0"
    by (elim exE conjE)
  from pct_open_carpool_range [OF w g2]
  obtain b where b: "pct_open_carpool df = Inr (Some b)" "0 \<le> b" "b \<le> 100"
    "total_responses df = 0 \<longrightarrow> b = 0"
    by (elim exE conjE)
  from pct_cab_issues_range [OF w g3]
  obtain c where c: "pct_cab_issues df = Inr (Some c)" "0 \<le> c" "c \<le> 100"
    "total_responses df = 0 \<longrightarrow> c = 0"
    by (elim exE conjE)
  from a(4) b(4) c(4) have z: "total_responses df = 0 \<longrightarrow> a = 0 \<and> b = 0 \<and> c = 0"
    by (intro impI conjI) (erule (1) mp)+
  from a(1-3) b(1-3) c(1-3) z
  show "\<exists>a b c. pct_private df = Inr (Some a) \<and> pct_open_carpool df = Inr (Some b) \<and>
         pct_cab_issues df = Inr (Some c) \<and>
         0 \<le> a \<and> a \<le> 100 \<and> 0 \<le> b \<and> b \<le> 100 \<and> 0 \<le> c \<and> c \<le> 100 \<and>
         (total_responses df = 0 \<longrightarrow> a = 0 \<and> b = 0 \<and> c = 0)"
    by (intro exI conjI)
qed

theorem percentages_in_range_witness:
  "wf_df empty_example \<and> getitem empty_example ''Travel Mode'' = Inr [] \<and>
   getitem empty_example ''Carpool Willingness'' = Inr [] \<and>
   getitem empty_example ''Cab Availability Issues'' = Inr [] \<and>
   total_responses empty_example = 0 \<and>
   pct_private empty_example = Inr (Some 0) \<and> pct_open_carpool empty_example = Inr (Some 0) \<and>
   pct_cab_issues empty_example = Inr (Some 0)"
proof -
  have h: "wf_df empty_example \<and> getitem empty_example ''Travel Mode'' = Inr [] \<and>
   getitem empty_example ''Carpool Willingness'' = Inr [] \<and>
   getitem empty_example ''Cab Availability Issues'' = Inr []"
    by code_simp
  from percentages_in_range [of "[]" empty_example "[]" "[]" "[]"] h show ?thesis
    by auto
qed

subsection \<open>Missing cells\<close>

lemma filter_length_mono:
  "(\<And>x. P x \<Longrightarrow> Q x) \<Longrightarrow> length (filter P xs) \<le> length (filter Q xs)"
  by (induction xs) auto

lemma mask_sum_map: "mask_sum (map F col) = length (filter F col)"
  by (simp add: mask_sum_def filter_map comp_def)

lemma mask_sum_present: "\<not> F NaN \<Longrightarrow> mask_sum (map F col) \<le> length (dropna col)"
  unfolding mask_sum_map dropna_def by (rule filter_length_mono) auto

lemma column_mask_facts:
  assumes "wf_df df" "getitem df name = Inr col" "\<not> F NaN"
  shows "(\<forall>i<total_responses df. col ! i = NaN \<longrightarrow> \<not> map F col ! i) \<and>
     (\<exists>p. metric_percentage (map F col) (total_responses df) = Some p \<and>
        p * of_nat (total_responses df) = 100 * of_nat (mask_sum (map F col))) \<and>
     mask_sum (map F col) \<le> length (dropna col)"
proof (intro conjI allI impI)
  have n: "total_responses df = length col"
    using getitem_length [OF assms(1,2)] by (simp only: total_responses_def len_df_def)
  fix i assume "i < total_responses df" "col ! i = NaN"
  with n assms(3) show "\<not> map F col ! i" by simp
next
  from percentage_of_mask [OF assms(1,2) length_map [of F col]]
  show "\<exists>p. metric_percentage (map F col) (total_responses df) = Some p \<and>
        p * of_nat (total_responses df) = 100 * of_nat (mask_sum (map F col))"
    by (elim exE conjE) (intro exI conjI)
next
  from assms(3) show "mask_sum (map F col) \<le> length (dropna col)"
    by (rule mask_sum_present)
qed

lemma private_mask_map:
  "getitem df ''Travel Mode'' = Inr tm \<Longrightarrow> \<exists>F. private_mask df = Inr (map F tm) \<and> \<not> F NaN"
  by (intro exI conjI, erule private_mask_Inr) (simp add: str_lower_def)

lemma open_to_carpool_mask_map:
  "getitem df ''Carpool Willingness'' = Inr cw \<Longrightarrow>
   \<exists>F. open_to_carpool_mask df = Inr (map F cw) \<and> \<not> F NaN"
  by (intro exI conjI, erule open_to_carpool_mask_Inr) (simp add: str_lower_def)

lemma cab_issue_mask_map:
  "getitem df ''Cab Availability Issues'' = Inr ca \<Longrightarrow>
   \<exists>F. cab_issue_mask df = Inr (map F ca) \<and> \<not> F NaN"
  by (intro exI conjI, erule cab_issue_mask_Inr) (simp add: str_lower_def)

lemma private_missing:
  assumes "wf_df df" "getitem df ''Travel Mode'' = Inr tm"
  shows "\<exists>m p. private_mask df = Inr m \<and>
     (\<forall>i<total_responses df. tm ! i = NaN \<longrightarrow> \<not> m ! i) \<and>
     pct_private df = Inr (Some p) \<and>
     p * of_nat (total_responses df) = 100 * of_nat (mask_sum m) \<and>
     mask_sum m \<le> length (dropna tm)"
proof -
  from private_mask_map [OF assms(2)]
  obtain F where F: "private_mask df = Inr (map F tm)" "\<not> F NaN" by (elim exE conjE)
  note c = column_mask_facts [where F = F, OF assms F(2)]
  from c [THEN conjunct2, THEN conjunct1]
  obtain p where p: "metric_percentage (map F tm) (total_responses df) = Some p"
    "p * of_nat (total_responses df) = 100 * of_nat (mask_sum (map F tm))"
    by (elim exE conjE)
  have v: "pct_private df = Inr (Some p)"
    by (simp only: pct_private_def F(1) map_sum.simps id_apply p(1))
  from F(1) c [THEN conjunct1] v p(2) c [THEN conjunct2, THEN conjunct2]
  show ?thesis by (intro exI conjI)
qed

lemma open_to_carpool_missing:
  assumes "wf_df df" "getitem df ''Carpool Willingness'' = Inr cw"
  shows "\<exists>m p. open_to_carpool_mask df = Inr m \<and>
     (\<forall>i<total_responses df. cw ! i = NaN \<longrightarrow> \<not> m ! i) \<and>
     pct_open_carpool df = Inr (Some p) \<and>
     p * of_nat (total_responses df) = 100 * of_nat (mask_sum m) \<and>
     mask_sum m \<le> length (dropna cw)"
proof -
  from open_to_carpool_mask_map [OF assms(2)]
  obtain F where F: "open_to_carpool_mask df = Inr (map F cw)" "\<not> F NaN" by (elim exE conjE)
  note c = column_mask_facts [where F = F, OF assms F(2)]
  from c [THEN conjunct2, THEN conjunct1]
  obtain p where p: "metric_percentage (map F cw) (total_responses df) = Some p"
    "p * of_nat (total_responses df) = 100 * of_nat (mask_sum (map F cw))"
    by (elim exE conjE)
  have v: "pct_open_carpool df = Inr (Some p)"
    by (simp only: pct_open_carpool_def F(1) map_sum.simps id_apply p(1))
  from F(1) c [THEN conjunct1] v p(2) c [THEN conjunct2, THEN conjunct2]
  show ?thesis by (intro exI conjI)
qed

lemma cab_issue_missing:
  assumes "wf_df df" "getitem df ''Cab Availability Issues'' = Inr ca"
  shows "\<exists>m p. cab_issue_mask df = Inr m \<and>
     (\<forall>i<total_responses df. ca ! i = NaN \<longrightarrow> \<not> m ! i) \<and>
     pct_cab_issues df = Inr (Some p) \<and>
     p * of_nat (total_responses df) = 100 * of_nat (mask_sum m) \<and>
     mask_sum m \<le> length (dropna ca)"
proof -
  from cab_issue_mask_map [OF assms(2)]
  obtain F where F: "cab_issue_mask df = Inr (map F ca)" "\<not> F NaN" by (elim exE conjE)
  note c = column_mask_facts [where F = F, OF assms F(2)]
  from c [THEN conjunct2, THEN conjunct1]
  obtain p where p: "metric_percentage (map F ca) (total_responses df) = Some p"
    "p * of_nat (total_responses df) = 100 * of_nat (mask_sum (map F ca))"
    by (elim exE conjE)
  have v: "pct_cab_issues df = Inr (Some p)"
    by (simp only: pct_cab_issues_def F(1) map_sum.simps id_apply p(1))
  from F(1) c [THEN conjunct1] v p(2) c [THEN conjunct2, THEN conjunct2]
  show ?thesis by (intro exI conjI)
qed

text \<open>
  C10. In a table with the three columns, a row whose travel-mode cell is missing is false
  in the private-vehicle mask, and likewise a missing carpool-willingness cell in the
  open-to-carpool mask and a missing cab-availability cell in the cab-issue mask. The
  number of responses is the number of all rows, missing cells or not, and each
  percentage times that number is 100 times the number of true rows, which is at most
  the number of rows whose cell is present: a missing cell stays in the denominator and
  never in the numerator.
\<close>

theorem missing_cells_are_false_and_counted:
  "wf_df df \<and> getitem df ''Travel Mode'' = Inr tm \<and>
   getitem df ''Carpool Willingness'' = Inr cw \<and>
   getitem df ''Cab Availability Issues'' = Inr ca \<longrightarrow>
     total_responses df = length tm \<and> total_responses df = length cw \<and>
     total_responses df = length ca \<and>
     (\<exists>m p. private_mask df = Inr m \<and>
        (\<forall>i<total_responses df. tm ! i = NaN \<longrightarrow> \<not> m ! i) \<and>
        pct_private df = Inr (Some p) \<and>
        p * of_nat (total_responses df) = 100 * of_nat (mask_sum m) \<and>
        mask_sum m \<le> length (dropna tm)) \<and>
     (\<exists>m p. open_to_carpool_mask df = Inr m \<and>
        (\<forall>i<total_responses df. cw ! i = NaN \<longrightarrow> \<not> m ! i) \<and>
        pct_open_carpool df = Inr (Some p) \<and>
        p * of_nat (total_responses df) = 100 * of_nat (mask_sum m) \<and>
        mask_sum m \<le> length (dropna cw)) \<and>
     (\<exists>m p. cab_issue_mask df = Inr m \<and>
        (\<forall>i<total_responses df. ca ! i = NaN \<longrightarrow> \<not> m ! i) \<and>
        pct_cab_issues df = Inr (Some p) \<and>
        p * of_nat (total_responses df) = 100 * of_nat (mask_sum m) \<and>
        mask_sum m \<le> length (dropna ca))"
proof (rule impI)
  assume h: "wf_df df \<and> getitem df ''Travel Mode'' = Inr tm \<and>
   getitem df ''Carpool Willingness'' = Inr cw \<and>
   getitem df ''Cab Availability Issues'' = Inr ca"
  from h have w: "wf_df df" by (elim conjE)
  from h have g1: "getitem df ''Travel Mode'' = Inr tm" by (elim conjE)
  from h have g2: "getitem df ''Carpool Willingness'' = Inr cw" by (elim conjE)
  from h have g3: "getitem df ''Cab Availability Issues'' = Inr ca" by (elim conjE)
  have n1: "total_responses df = length tm"
    using getitem_length [OF w g1] by (simp only: total_responses_def len_df_def)
  have n2: "total_responses df = length cw"
    using getitem_length [OF w g2] by (simp only: total_responses_def len_df_def)
  have n3: "total_responses df = length ca"
    using getitem_length [OF w g3] by (simp only: total_responses_def len_df_def)
  from n1 n2 n3 private_missing [OF w g1] open_to_carpool_missing [OF w g2]
    cab_issue_missing [OF w g3]
  show "total_responses df = length tm \<and> total_responses df = length cw \<and>
     total_responses df = length ca \<and>
     (\<exists>m p. private_mask df = Inr m \<and>
        (\<forall>i<total_responses df. tm ! i = NaN \<longrightarrow> \<not> m ! i) \<and>
        pct_private df = Inr (Some p) \<and>
        p * of_nat (total_responses df) = 100 * of_nat (mask_sum m) \<and>
        mask_sum m \<le> length (dropna tm)) \<and>
     (\<exists>m p. open_to_carpool_mask df = Inr m \<and>
        (\<forall>i<total_responses df. cw ! i = NaN \<longrightarrow> \<not> m ! i) \<and>
        pct_open_carpool df = Inr (Some p) \<and>
        p * of_nat (total_responses df) = 100 * of_nat (mask_sum m) \<and>
        mask_sum m \<le> length (dropna cw)) \<and>
     (\<exists>m p. cab_issue_mask df = Inr m \<and>
        (\<forall>i<total_responses df. ca ! i = NaN \<longrightarrow> \<not> m ! i) \<and>
        pct_cab_issues df = Inr (Some p) \<and>
        p * of_nat (total_responses df) = 100 * of_nat (mask_sum m) \<and>
        mask_sum m \<le> length (dropna ca))"
    by (intro conjI)
qed

theorem missing_cells_are_false_and_counted_witness:
  "wf_df survey_example \<and>
   getitem survey_example ''Travel Mode''
     = Inr [Str ''Own Car'', NaN, Str ''Ola/Uber'', Str ''Own Car''] \<and>
   getitem survey_example ''Carpool Willingness''
     = Inr [Str ''Yes'', Str ''No'', NaN, Str ''Maybe''] \<and>
   getitem survey_example ''Cab Availability Issues''
     = Inr [Str ''No'', Str ''Sometimes'', Str ''Yes'', NaN] \<and>
   total_responses survey_example = 4 \<and>
   (\<exists>m. private_mask survey_example = Inr m \<and> \<not> m ! 1) \<and>
   (\<exists>m. open_to_carpool_mask survey_example = Inr m \<and> \<not> m ! 2) \<and>
   (\<exists>m. cab_issue_mask survey_example = Inr m \<and> \<not> m ! 3)"
proof -
  let ?tm = "[Str ''Own Car'', NaN, Str ''Ola/Uber'', Str ''Own Car'']"
  let ?cw = "[Str ''Yes'', Str ''No'', NaN, Str ''Maybe'']"
  let ?ca = "[Str ''No'', Str ''Sometimes'', Str ''Yes'', NaN]"
  have h: "wf_df survey_example \<and>
   getitem survey_example ''Travel Mode'' = Inr ?tm \<and>
   getitem survey_example ''Carpool Willingness'' = Inr ?cw \<and>
   getitem survey_example ''Cab Availability Issues'' = Inr ?ca"
    by code_simp
  have t: "total_responses survey_example = 4"
    by code_simp
  note r = missing_cells_are_false_and_counted [of survey_example ?tm ?cw ?ca, THEN mp, OF h]
  have i: "(1::nat) < 4" "(2::nat) < 4" "(3::nat) < 4" "?tm ! 1 = NaN" "?cw ! 2 = NaN"
    "?ca ! 3 = NaN"
    by simp_all
  from r obtain m1 where m1: "private_mask survey_example = Inr m1"
    "\<forall>i<total_responses survey_example. ?tm ! i = NaN \<longrightarrow> \<not> m1 ! i"
    by (elim exE conjE)
  from r obtain m2 where m2: "open_to_carpool_mask survey_example = Inr m2"
    "\<forall>i<total_responses survey_example. ?cw ! i = NaN \<longrightarrow> \<not> m2 ! i"
    by (elim exE conjE)
  from r obtain m3 where m3: "cab_issue_mask survey_example = Inr m3"
    "\<forall>i<total_responses survey_example. ?ca ! i = NaN \<longrightarrow> \<not> m3 ! i"
    by (elim exE conjE)
  from m1(2) i(1,4) have f1: "\<not> m1 ! 1" unfolding t by (elim allE impE)
  from m2(2) i(2,5) have f2: "\<not> m2 ! 2" unfolding t by (elim allE impE)
  from m3(2) i(3,6) have f3: "\<not> m3 ! 3" unfolding t by (elim allE impE)
  from h t m1(1) f1 m2(1) f2 m3(1) f3 show ?thesis
    by (intro conjI exI) (elim conjE, assumption)+
qed

subsection \<open>Frequency tables\<close>

lemma sum_count_into: "sum_list (map snd (count_into x t)) = Suc (sum_list (map snd t))"
  by (induction x t rule: count_into.induct) auto

lemma sum_counted:
  "sum_list (map snd (foldl (\<lambda>t x. count_into x t) t xs)) = sum_list (map snd t) + length xs"
  by (induction xs arbitrary: t) (auto simp: sum_count_into)

lemma sum_insort_key:
  "sum_list (map g (insort_key f x xs)) = (g x :: nat) + sum_list (map g xs)"
  by (induction xs) auto

lemma sum_sort_key: "sum_list (map g (sort_key f xs)) = sum_list (map (g :: 'a \<Rightarrow> nat) xs)"
  by (induction xs) (auto simp: sum_insort_key)

lemma keys_count_into: "fst ` set (count_into x t) = insert x (fst ` set t)"
  by (induction x t rule: count_into.induct) auto

lemma distinct_count_into: "distinct (map fst t) \<Longrightarrow> distinct (map fst (count_into x t))"
proof (induction x t rule: count_into.induct)
  case (1 x)
  then show ?case by simp
next
  case (2 x k c t)
  then show ?case
    using keys_count_into [of x t] by (auto simp: image_iff)
qed

lemma lookup_count_into:
  "map_of (count_into x t) k =
     (if k = x then Some (case map_of t x of None \<Rightarrow> 1 | Some c \<Rightarrow> c + 1) else map_of t k)"
  by (induction x t rule: count_into.induct) auto

lemma count_of_count_into:
  "count_of (count_into x t) k = (if k = x then Suc (count_of t k) else count_of t k)"
  by (simp add: count_of_def lookup_count_into split: option.splits)

lemma distinct_counted:
  "distinct (map fst t) \<Longrightarrow> distinct (map fst (foldl (\<lambda>t x. count_into x t) t xs))"
  by (induction xs arbitrary: t) (auto simp: distinct_count_into)

lemma count_of_counted:
  "count_of (foldl (\<lambda>t x. count_into x t) t xs) k = count_of t k + length (filter (\<lambda>x. x = k) xs)"
  by (induction xs arbitrary: t) (auto simp: count_of_count_into)

lemma distinct_fst_sort_key:
  "distinct (map fst t) \<Longrightarrow> distinct (map fst (sort_key f t))"
  by (simp add: distinct_map)

lemma map_of_sort_key: "distinct (map fst t) \<Longrightarrow> map_of (sort_key f t) = map_of t"
proof -
  assume d: "distinct (map fst t)"
  then have "distinct (map fst (sort_key f t))" by (rule distinct_fst_sort_key)
  from map_of_inject_set [OF this d] show ?thesis by simp
qed

lemma dropna_fillna: "dropna (fillna v s) = fillna v s"
  by (induction s) (auto simp: dropna_def fillna_def split: cell.splits)

lemma value_counts_fillna:
  "sum_list (map snd (value_counts (fillna v s))) = length s \<and>
   distinct (map fst (value_counts (fillna v s))) \<and>
   (\<forall>l. count_of (value_counts (fillna v s)) (Str l)
        = length (filter (\<lambda>c. (case c of NaN \<Rightarrow> v | Str x \<Rightarrow> x) = l) s))"
proof (intro conjI allI)
  show "sum_list (map snd (value_counts (fillna v s))) = length s"
    by (simp add: value_counts_def sum_sort_key sum_counted dropna_fillna) (simp add: fillna_def)
  have d: "distinct (map fst (foldl (\<lambda>t x. count_into x t) [] (fillna v s)))"
    by (rule distinct_counted) simp
  then show "distinct (map fst (value_counts (fillna v s)))"
    by (simp add: value_counts_def dropna_fillna distinct_fst_sort_key)
  fix l
  have "count_of (value_counts (fillna v s)) (Str l)
      = length (filter (\<lambda>x. x = Str l) (fillna v s))"
    using d by (simp add: value_counts_def dropna_fillna count_of_def map_of_sort_key
        count_of_counted [unfolded count_of_def, of "[]", simplified])
  also have "\<dots> = length (filter (\<lambda>c. (case c of NaN \<Rightarrow> v | Str x \<Rightarrow> x) = l) s)"
    by (induction s) (auto simp: fillna_def split: cell.splits)
  finally show "count_of (value_counts (fillna v s)) (Str l)
        = length (filter (\<lambda>c. (case c of NaN \<Rightarrow> v | Str x \<Rightarrow> x) = l) s)" .
qed

lemma counts_of_column:
  assumes "wf_df df" "getitem df name = Inr col"
  shows "\<exists>t. map_sum id (\<lambda>s. value_counts (fillna ''(Missing)'' s)) (getitem df name) = Inr t \<and>
     sum_list (map snd t) = len_df df \<and> distinct (map fst t) \<and>
     (\<forall>l. count_of t (Str l)
        = length (filter (\<lambda>c. (case c of NaN \<Rightarrow> ''(Missing)'' | Str x \<Rightarrow> x) = l) col))"
proof -
  note v = value_counts_fillna [of "''(Missing)''" col]
  have n: "length col = len_df df"
    using getitem_length [OF assms] by (simp only: len_df_def)
  have a: "map_sum id (\<lambda>s. value_counts (fillna ''(Missing)'' s)) (getitem df name)
      = Inr (value_counts (fillna ''(Missing)'' col))"
    by (simp only: assms(2) map_sum.simps)
  from v [THEN conjunct1] n
  have b: "sum_list (map snd (value_counts (fillna ''(Missing)'' col))) = len_df df"
    by (rule trans)
  from a b v [THEN conjunct2, THEN conjunct1] v [THEN conjunct2, THEN conjunct2]
  show ?thesis by (intro exI conjI)
qed

text \<open>
  C8. In a table with a travel-mode column the counts of the travel-mode distribution sum
  to the number of rows of the table, and so do the counts of the carpool-willingness
  table when that column is there. Each label occurs once in the table, and its count is
  the number of rows whose value, "(Missing)" standing for a missing cell, is that label:
  every row is counted once, the rows with a missing cell under "(Missing)".
\<close>

theorem frequency_table_counts_rows:
  "(wf_df df \<and> getitem df ''Travel Mode'' = Inr tm \<longrightarrow>
      (\<exists>t. mode_counts df = Inr t \<and> sum_list (map snd t) = len_df df \<and>
         distinct (map fst t) \<and>
         (\<forall>l. count_of t (Str l)
            = length (filter (\<lambda>c. (case c of NaN \<Rightarrow> ''(Missing)'' | Str x \<Rightarrow> x) = l) tm)))) \<and>
   (wf_df df \<and> getitem df ''Carpool Willingness'' = Inr cw \<longrightarrow>
      (\<exists>t. pool_counts df = Inr t \<and> sum_list (map snd t) = len_df df \<and>
         distinct (map fst t) \<and>
         (\<forall>l. count_of t (Str l)
            = length (filter (\<lambda>c. (case c of NaN \<Rightarrow> ''(Missing)'' | Str x \<Rightarrow> x) = l) cw))))"
proof (intro conjI impI)
  assume h: "wf_df df \<and> getitem df ''Travel Mode'' = Inr tm"
  from h have w: "wf_df df" by (elim conjE)
  from h have g: "getitem df ''Travel Mode'' = Inr tm" by (elim conjE)
  from counts_of_column [OF w g]
  show "\<exists>t. mode_counts df = Inr t \<and> sum_list (map snd t) = len_df df \<and>
         distinct (map fst t) \<and>
         (\<forall>l. count_of t (Str l)
            = length (filter (\<lambda>c. (case c of NaN \<Rightarrow> ''(Missing)'' | Str x \<Rightarrow> x) = l) tm))"
    unfolding mode_counts_def .
next
  assume h: "wf_df df \<and> getitem df ''Carpool Willingness'' = Inr cw"
  from h have w: "wf_df df" by (elim conjE)
  from h have g: "getitem df ''Carpool Willingness'' = Inr cw" by (elim conjE)
  from counts_of_column [OF w g]
  show "\<exists>t. pool_counts df = Inr t \<and> sum_list (map snd t) = len_df df \<and>
         distinct (map fst t) \<and>
         (\<forall>l. count_of t (Str l)
            = length (filter (\<lambda>c. (case c of NaN \<Rightarrow> ''(Missing)'' | Str x \<Rightarrow> x) = l) cw))"
    unfolding pool_counts_def .
qed

theorem frequency_table_counts_rows_witness:
  "wf_df survey_example \<and>
   getitem survey_example ''Travel Mode''
     = Inr [Str ''Own Car'', NaN, Str ''Ola/Uber'', Str ''Own Car''] \<and>
   getitem survey_example ''Carpool Willingness''
     = Inr [Str ''Yes'', Str ''No'', NaN, Str ''Maybe''] \<and>
   (\<exists>t. mode_counts survey_example = Inr t \<and> sum_list (map snd t) = 4 \<and>
      count_of t (Str ''(Missing)'') = 1 \<and> count_of t (Str ''Own Car'') = 2) \<and>
   (\<exists>t. pool_counts survey_example = Inr t \<and> sum_list (map snd t) = 4 \<and>
      count_of t (Str ''(Missing)'') = 1)"
proof -
  let ?tm = "[Str ''Own Car'', NaN, Str ''Ola/Uber'', Str ''Own Car'']"
  let ?cw = "[Str ''Yes'', Str ''No'', NaN, Str ''Maybe'']"
  have w: "wf_df survey_example" by code_simp
  have g1: "getitem survey_example ''Travel Mode'' = Inr ?tm" by code_simp
  have g2: "getitem survey_example ''Carpool Willingness'' = Inr ?cw" by code_simp
  have n: "len_df survey_example = 4" by code_simp
  note r = frequency_table_counts_rows [of survey_example ?tm ?cw]
  from r [THEN conjunct1, THEN mp, OF conjI, OF w g1]
  obtain t1 where t1: "mode_counts survey_example = Inr t1"
    "sum_list (map snd t1) = len_df survey_example"
    "\<forall>l. count_of t1 (Str l)
       = length (filter (\<lambda>c. (case c of NaN \<Rightarrow> ''(Missing)'' | Str x \<Rightarrow> x) = l) ?tm)"
    by (elim exE conjE)
  from r [THEN conjunct2, THEN mp, OF conjI, OF w g2]
  obtain t2 where t2: "pool_counts survey_example = Inr t2"
    "sum_list (map snd t2) = len_df survey_example"
    "\<forall>l. count_of t2 (Str l)
       = length (filter (\<lambda>c. (case c of NaN \<Rightarrow> ''(Missing)'' | Str x \<Rightarrow> x) = l) ?cw)"
    by (elim exE conjE)
  have a: "count_of t1 (Str ''(Missing)'') = 1"
    unfolding t1(3) [rule_format] by simp
  have b: "count_of t1 (Str ''Own Car'') = 2"
    unfolding t1(3) [rule_format] by simp
  have c: "count_of t2 (Str ''(Missing)'') = 1"
    unfolding t2(3) [rule_format] by simp
  from w g1 g2 t1(1) t1(2) [unfolded n] a b t2(1) t2(2) [unfolded n] c
  show ?thesis by (intro conjI exI)
qed

text \<open>
  C2, as claimed: the carpool-willingness table of "Yes", "No", "Maybe", "yes" would be
  Yes 2, No 1, Maybe 1. The script counts the values as they are written, so "Yes" and
  "yes" are two labels with one row each.
\<close>

theorem pool_counts_case_counterexample:
  "pool_counts carpool_example \<noteq> Inr [(Str ''Yes'', 2), (Str ''No'', 1), (Str ''Maybe'', 1)] \<and>
   pool_counts carpool_example
     = Inr [(Str ''Yes'', 1), (Str ''No'', 1), (Str ''Maybe'', 1), (Str ''yes'', 1)]"
  by code_simp

text \<open>
  C2, amended. The carpool-willingness table keeps the case of the values: for the column
  "Yes", "No", "Maybe", "yes" it is Yes 1, No 1, Maybe 1, yes 1, in the order of first
  encounter. The open-to-carpool mask lower-cases the values, so three of the four rows
  are open to carpooling and the percentage is 75.
\<close>

theorem pool_counts_example:
  "pool_counts carpool_example
     = Inr [(Str ''Yes'', 1), (Str ''No'', 1), (Str ''Maybe'', 1), (Str ''yes'', 1)] \<and>
   open_to_carpool_mask carpool_example = Inr [True, False, True, True] \<and>
   pct_open_carpool carpool_example = Inr (Some 75)"
  by code_simp

subsection \<open>The cross-tabulation\<close>

lemma sum_indicator:
  "distinct cs \<Longrightarrow>
   sum_list (map (\<lambda>c. if c = y then 1 else 0) cs) = (if y \<in> set cs then (1::nat) else 0)"
  by (induction cs) auto

lemma row_total:
  "distinct cs \<Longrightarrow> snd ` set obs \<subseteq> set cs \<Longrightarrow>
   sum_list (map (\<lambda>c. count_list obs (r, c)) cs) = length (filter (\<lambda>p. fst p = r) obs)"
proof (induction obs)
  case Nil
  then show ?case by simp
next
  case (Cons p ps)
  obtain x y where p: "p = (x, y)" by (cases p)
  from Cons.prems have y: "y \<in> set cs" and sub: "snd ` set ps \<subseteq> set cs"
    by (auto simp: p)
  have "sum_list (map (\<lambda>c. count_list (p # ps) (r, c)) cs)
      = sum_list (map (\<lambda>c. count_list ps (r, c) + (if x = r then (if c = y then (1::nat) else 0) else 0)) cs)"
    by (rule arg_cong [where f = sum_list], rule map_cong) (auto simp: p)
  also have "\<dots> = sum_list (map (\<lambda>c. count_list ps (r, c)) cs)
      + sum_list (map (\<lambda>c. if x = r then (if c = y then (1::nat) else 0) else 0) cs)"
    by (simp add: sum_list_addf)
  also have "sum_list (map (\<lambda>c. if x = r then (if c = y then (1::nat) else 0) else 0) cs)
      = (if x = r then 1 else 0)"
    using sum_indicator [OF Cons.prems(1), of y] y by (cases "x = r") simp_all
  finally show ?case
    using Cons.IH [OF Cons.prems(1) sub] by (simp add: p)
qed

lemma crosstab_row:
  assumes "(r, counts) \<in> set (crosstab a b)"
  shows "sum_list (map snd counts) = length (filter (\<lambda>p. fst p = r) (observations a b)) \<and>
     0 < sum_list (map snd counts)"
proof -
  let ?obs = "observations a b"
  let ?cols = "sort (remdups (map snd ?obs))"
  from assms have r: "r \<in> fst ` set ?obs"
    and c: "counts = map (\<lambda>c. (c, count_list ?obs (r, c))) ?cols"
    by (auto simp: crosstab_def Let_def)
  have "sum_list (map snd counts) = sum_list (map (\<lambda>c. count_list ?obs (r, c)) ?cols)"
    by (simp add: c comp_def)
  also have "\<dots> = length (filter (\<lambda>p. fst p = r) ?obs)"
    by (rule row_total) auto
  finally have s: "sum_list (map snd counts) = length (filter (\<lambda>p. fst p = r) ?obs)" .
  from r have "filter (\<lambda>p. fst p = r) ?obs \<noteq> []"
    by (auto simp: filter_empty_conv)
  with s show ?thesis by simp
qed

lemma zip_with_image: "zip t (map f t) = map (\<lambda>x. (x, f x)) t"
  by (induction t) auto

lemma scaled_rows:
  "mul_scalar (div_axis0 t (sum_axis1 t)) k =
     map (\<lambda>row. (fst row,
            map (\<lambda>e. (fst e, map_option (\<lambda>q. q * k) (np_div (snd e) (sum_list (map snd (snd row))))))
              (snd row))) t"
  by (simp add: mul_scalar_def div_axis0_def sum_axis1_def zip_with_image comp_def)

lemma sum_scaled:
  "sum_list (map (\<lambda>k. of_nat k / n * c) ks) = (of_nat (sum_list ks) / n * c :: rat)"
  by (induction ks) (simp_all add: add_divide_distrib distrib_right)

lemma percent_cells:
  "0 < n \<Longrightarrow>
   map snd (map (\<lambda>e. (fst e, map_option (\<lambda>q. q * 100) (np_div (snd e) n))) counts)
     = map Some (map (\<lambda>k. of_nat k / of_nat n * 100) (map snd counts))"
  by (induction counts) (simp_all add: np_div_def)

lemma percent_total:
  "0 < n \<Longrightarrow> n = sum_list ks \<Longrightarrow>
   sum_list (map (\<lambda>k. of_nat k / of_nat n * 100) ks) = (100::rat)"
proof -
  assume p: "0 < n" and e: "n = sum_list ks"
  from p have "(of_nat n :: rat) \<noteq> 0" by simp
  then have "of_nat n / of_nat n * 100 = (100::rat)" by simp
  then show ?thesis unfolding sum_scaled e [symmetric] .
qed

lemma percent_row:
  assumes "0 < sum_list (map snd counts)"
  shows "\<exists>vals. map snd (map (\<lambda>e. (fst e, map_option (\<lambda>q. q * 100)
                   (np_div (snd e) (sum_list (map snd counts))))) counts) = map Some vals \<and>
     sum_list vals = 100"
  by (intro exI conjI, rule percent_cells [OF assms], rule percent_total [OF assms refl])

lemma ct_value:
  "getitem df ''Travel Mode'' = Inr tm \<Longrightarrow> getitem df ''Cab Availability Issues'' = Inr ca \<Longrightarrow>
   ct df = Inr (crosstab (fillna ''(Missing)'' tm) (fillna ''(Missing)'' ca))"
  by (simp add: ct_def df_mode_issue_def)

text \<open>
  The division itself has no guard: on a table made by hand with a row of zeros it gives
  no number. The cross-tabulation never has such a row, as the theorem below shows.
\<close>

lemma div_axis0_zero_row:
  "div_axis0 [(r, [(c, 0)])] (sum_axis1 [(r, [(c, 0)])]) = [(r, [(c, None)])]"
  by (simp add: div_axis0_def sum_axis1_def np_div_def)

text \<open>
  C5. In a table with the travel-mode and the cab-availability columns the
  cross-tabulation and its percentages are computed without an exception and have the
  same row labels. Every row of the cross-tabulation has at least one observation, since
  its label is the travel mode of some row of the table; so no row sum is zero, every
  percentage is a number (none is the result of a division by zero), and the percentages
  of each row sum to 100. A row without observations does not occur.
\<close>

theorem ct_pct_rows_sum_to_100:
  "getitem df ''Travel Mode'' = Inr tm \<and> getitem df ''Cab Availability Issues'' = Inr ca \<longrightarrow>
     (\<exists>c t. ct df = Inr c \<and> ct_pct df = Inr t \<and> map fst t = map fst c \<and>
        (\<forall>row \<in> set c. 0 < sum_list (map snd (snd row))) \<and>
        (\<forall>row \<in> set t. \<exists>vals. map snd (snd row) = map Some vals \<and> sum_list vals = 100))"
proof (rule impI)
  assume h: "getitem df ''Travel Mode'' = Inr tm \<and>
    getitem df ''Cab Availability Issues'' = Inr ca"
  from h have g1: "getitem df ''Travel Mode'' = Inr tm" by (elim conjE)
  from h have g2: "getitem df ''Cab Availability Issues'' = Inr ca" by (elim conjE)
  define c where "c = crosstab (fillna ''(Missing)'' tm) (fillna ''(Missing)'' ca)"
  define t where "t = mul_scalar (div_axis0 c (sum_axis1 c)) 100"
  have a: "ct df = Inr c"
    unfolding c_def by (rule ct_value [OF g1 g2])
  have b: "ct_pct df = Inr t"
    by (simp only: ct_pct_def a map_sum.simps t_def)
  have l: "map fst t = map fst c"
    by (simp add: t_def scaled_rows comp_def)
  have p: "\<forall>row \<in> set c. 0 < sum_list (map snd (snd row))"
  proof
    fix row assume "row \<in> set c"
    then have "(fst row, snd row) \<in> set (crosstab (fillna ''(Missing)'' tm) (fillna ''(Missing)'' ca))"
      by (simp add: c_def)
    from crosstab_row [OF this] show "0 < sum_list (map snd (snd row))"
      by (rule conjunct2)
  qed
  have q: "\<forall>row \<in> set t. \<exists>vals. map snd (snd row) = map Some vals \<and> sum_list vals = 100"
  proof
    fix row assume "row \<in> set t"
    then obtain crow where m: "crow \<in> set c"
      and r: "row = (fst crow, map (\<lambda>e. (fst e, map_option (\<lambda>q. q * 100)
                (np_div (snd e) (sum_list (map snd (snd crow)))))) (snd crow))"
      unfolding t_def scaled_rows by auto
    from p m have "0 < sum_list (map snd (snd crow))" by (rule bspec)
    from percent_row [OF this]
    show "\<exists>vals. map snd (snd row) = map Some vals \<and> sum_list vals = 100"
      unfolding r snd_conv .
  qed
  from a b l p q
  show "\<exists>c t. ct df = Inr c \<and> ct_pct df = Inr t \<and> map fst t = map fst c \<and>
        (\<forall>row \<in> set c. 0 < sum_list (map snd (snd row))) \<and>
        (\<forall>row \<in> set t. \<exists>vals. map snd (snd row) = map Some vals \<and> sum_list vals = 100)"
    by (intro exI conjI)
qed

theorem ct_pct_rows_sum_to_100_witness:
  "getitem survey_example ''Travel Mode''
     = Inr [Str ''Own Car'', NaN, Str ''Ola/Uber'', Str ''Own Car''] \<and>
   getitem survey_example ''Cab Availability Issues''
     = Inr [Str ''No'', Str ''Sometimes'', Str ''Yes'', NaN] \<and>
   ct survey_example =
     Inr [(''(Missing)'', [(''(Missing)'', 0), (''No'', 0), (''Sometimes'', 1), (''Yes'', 0)]),
          (''Ola/Uber'', [(''(Missing)'', 0), (''No'', 0), (''Sometimes'', 0), (''Yes'', 1)]),
          (''Own Car'', [(''(Missing)'', 1), (''No'', 1), (''Sometimes'', 0), (''Yes'', 0)])] \<and>
   ct_pct survey_example =
     Inr [(''(Missing)'',
           [(''(Missing)'', Some 0), (''No'', Some 0), (''Sometimes'', Some 100), (''Yes'', Some 0)]),
          (''Ola/Uber'',
           [(''(Missing)'', Some 0), (''No'', Some 0), (''Sometimes'', Some 0), (''Yes'', Some 100)]),
          (''Own Car'',
           [(''(Missing)'', Some 50), (''No'', Some 50), (''Sometimes'', Some 0), (''Yes'', Some 0)])] \<and>
   (0::nat) < sum_list (map snd [(''(Missing)'', 1), (''No'', 1), (''Sometimes'', 0), (''Yes'', 0::nat)]) \<and>
   (\<exists>vals. map snd [(''(Missing)'', Some 50), (''No'', Some 50), (''Sometimes'', Some 0),
                    (''Yes'', Some (0::rat))] = map Some vals \<and> sum_list vals = 100)"
proof -
  let ?tm = "[Str ''Own Car'', NaN, Str ''Ola/Uber'', Str ''Own Car'']"
  let ?ca = "[Str ''No'', Str ''Sometimes'', Str ''Yes'', NaN]"
  let ?crow = "(''Own Car'', [(''(Missing)'', 1), (''No'', 1), (''Sometimes'', 0), (''Yes'', 0::nat)])"
  let ?c = "[(''(Missing)'', [(''(Missing)'', 0), (''No'', 0), (''Sometimes'', 1), (''Yes'', 0)]),
          (''Ola/Uber'', [(''(Missing)'', 0), (''No'', 0), (''Sometimes'', 0), (''Yes'', 1)]),
          ?crow]"
  let ?trow = "(''Own Car'',
           [(''(Missing)'', Some 50), (''No'', Some 50), (''Sometimes'', Some 0), (''Yes'', Some (0::rat))])"
  let ?t = "[(''(Missing)'',
           [(''(Missing)'', Some 0), (''No'', Some 0), (''Sometimes'', Some 100), (''Yes'', Some 0)]),
          (''Ola/Uber'',
           [(''(Missing)'', Some 0), (''No'', Some 0), (''Sometimes'', Some 0), (''Yes'', Some 100)]),
          ?trow]"
  have g1: "getitem survey_example ''Travel Mode'' = Inr ?tm" by code_simp
  have g2: "getitem survey_example ''Cab Availability Issues'' = Inr ?ca" by code_simp
  have a: "ct survey_example = Inr ?c" by code_simp
  have b: "ct_pct survey_example = Inr ?t" by code_simp
  from ct_pct_rows_sum_to_100 [of survey_example ?tm ?ca, THEN mp, OF conjI, OF g1 g2]
  obtain c t where r: "ct survey_example = Inr c" "ct_pct survey_example = Inr t"
    "\<forall>row \<in> set c. 0 < sum_list (map snd (snd row))"
    "\<forall>row \<in> set t. \<exists>vals. map snd (snd row) = map Some vals \<and> sum_list vals = 100"
    by (elim exE conjE)
  from r(1) a have c: "c = ?c" by (simp only: sum.inject)
  from r(2) b have t: "t = ?t" by (simp only: sum.inject)
  have "?crow \<in> set c" unfolding c by simp
  with r(3) have x: "0 < sum_list (map snd (snd ?crow))" by (rule bspec)
  have "?trow \<in> set t" unfolding t by simp
  with r(4) have y: "\<exists>vals. map snd (snd ?trow) = map Some vals \<and> sum_list vals = 100"
    by (rule bspec)
  from g1 g2 a b x [unfolded snd_conv] y [unfolded snd_conv] show ?thesis
    by (intro conjI)
qed

subsection \<open>Characters\<close>










subsection \<open>Splitting and joining\<close>






subsection \<open>Trimming\<close>






subsection \<open>Title case\<close>













subsection \<open>The tokenizer\<close>























end
